theory Spec2Isabelle
  imports Complex_Main
begin

section \<open>The Yahoo Finance HTTP gateway (server\_http.py)\<close>

text \<open>
  The gateway is a FastAPI application with five decorated coroutines. Each one awaits
  one function of the module \<open>yahoo_finance_server.helper\<close>, which is not part of the
  gateway, and turns the result into a response. The model below follows the file top to
  bottom: the values that travel through a handler, the external functions a handler
  calls, the handlers, the route table the decorators build, and the script block that
  starts the server.
\<close>

subsection \<open>Values\<close>

text \<open>
  A Python \<open>float\<close>: a finite number, one of the two infinities, or not a number.
  \<open>json.loads\<close> returns the last three for the tokens \<open>Infinity\<close>, \<open>-Infinity\<close> and
  \<open>NaN\<close>, and an infinity also for a literal too large for a double, such as
  \<open>1e400\<close>.
\<close>

datatype pyfloat = Finite real | Infinity | Neg_Infinity | NaN

text \<open>
  A Python value as \<open>json.loads\<close> returns it and as a handler returns it. A \<open>dict\<close>
  is given by its items in insertion order. A \<open>str\<close> is text, except that
  \<open>JSurrogate\<close> is a \<open>str\<close> that holds a lone surrogate (what \<open>json.loads\<close> returns for
  a string such as \<open>"\ud800"\<close>), given by its code points: it has no UTF-8 encoding.
\<close>

datatype json =
    JNull
  | JBool bool
  | JInt int
  | JFloat pyfloat
  | JStr string
  | JSurrogate "nat list"
  | JList "json list"
  | JDict "(string \<times> json) list"

text \<open>
  A raised exception object. The handlers look at two things only: whether the object is
  an instance of \<open>Exception\<close> (the \<open>except Exception\<close> clause), and its text
  \<open>str(e)\<close>. Objects that derive from \<open>BaseException\<close> alone, such as
  \<open>asyncio.CancelledError\<close>, \<open>KeyboardInterrupt\<close> and \<open>SystemExit\<close>, have
  \<open>isinstance_Exception = False\<close>.
\<close>

datatype exn = Raised (isinstance_Exception: bool) (str_of: string)

text \<open>
  What a handler does besides producing its result: it awaits functions of the helper
  module and writes to the logger. A handler's run is the list of these events in order.
\<close>

datatype provider_call =
    Get_ticker_info string
  | Get_ticker_news string int
  | Search_yahoo_finance string int
  | Get_price_history string string string
  | Get_top_entities

datatype event = Await provider_call | Logger_error string

fun calls :: "event list \<Rightarrow> provider_call list" where
  "calls [] = []"
| "calls (Await c # evs) = c # calls evs"
| "calls (Logger_error l # evs) = calls evs"

subsection \<open>What the file imports\<close>

text \<open>
  The five names imported from \<open>yahoo_finance_server.helper\<close>, \<open>json.loads\<close>, and the
  validation FastAPI applies to a query parameter annotated \<open>int\<close>. None of them is
  defined in the gateway, so they are parameters of the model. A helper function either
  returns (\<open>Inr\<close>) or raises (\<open>Inl\<close>). \<open>json.loads\<close> on a \<open>str\<close> either returns the
  decoded value or raises \<open>JSONDecodeError\<close>, an instance of \<open>Exception\<close>, of which
  \<open>Inl\<close> carries the text. The signature of \<open>get_top_entities\<close> is not visible from
  the gateway; it is a value of an arbitrary type.
\<close>

record 'g externals =
  get_ticker_info :: "string \<Rightarrow> exn + string"
  get_ticker_news :: "string \<Rightarrow> int \<Rightarrow> exn + json"
  search_yahoo_finance :: "string \<Rightarrow> int \<Rightarrow> exn + json"
  get_price_history :: "string \<Rightarrow> string \<Rightarrow> string \<Rightarrow> exn + json"
  get_top_entities :: 'g
  json_loads :: "string \<Rightarrow> string + json"
  int_validate :: "string \<Rightarrow> int option"

definition JSONDecodeError :: "string \<Rightarrow> exn" where
  "JSONDecodeError d = Raised True d"

subsection \<open>Handlers\<close>

text \<open>
  How a handler ends: it returns a value, it raises \<open>HTTPException(status_code, detail)\<close>,
  or an exception it does not catch leaves it. The fourth case belongs to the routing
  layer: the request's parameters failed validation and the handler was not called; it
  carries the locations of the offending parameters. The fifth is what the framework's
  own documentation endpoints produce: a response object with the OpenAPI schema or an
  HTML page.
\<close>

datatype outcome =
    Returned json
  | HTTPException int string
  | Uncaught exn
  | RequestValidationError "(string \<times> string) list"
  | Served_documentation

text \<open>
  The \<open>except Exception as e\<close> clause shared by the four provider handlers: log
  \<open>f"{msg}: {e}"\<close> and raise \<open>HTTPException(status_code=500, detail=str(e))\<close>. An
  exception that is not an instance of \<open>Exception\<close> does not match the clause and
  propagates.
\<close>

definition except_Exception :: "string \<Rightarrow> exn \<Rightarrow> event list \<times> outcome" where
  "except_Exception msg e =
     (if isinstance_Exception e
      then ([Logger_error (msg @ '': '' @ str_of e)], HTTPException 500 (str_of e))
      else ([], Uncaught e))"

definition health_check :: "event list \<times> outcome" where
  "health_check = ([], Returned (JDict [(''status'', JStr ''ok'')]))"

definition get_info :: "'g externals \<Rightarrow> string \<Rightarrow> event list \<times> outcome" where
  "get_info ext symbol =
     (let (evs, out) =
        (case get_ticker_info ext symbol of
           Inr info_json \<Rightarrow>
             (case json_loads ext info_json of
                Inr v \<Rightarrow> ([], Returned v)
              | Inl d \<Rightarrow>
                  except_Exception (''Error fetching info for '' @ symbol) (JSONDecodeError d))
         | Inl e \<Rightarrow> except_Exception (''Error fetching info for '' @ symbol) e)
      in (Await (Get_ticker_info symbol) # evs, out))"

definition get_news :: "'g externals \<Rightarrow> string \<Rightarrow> int \<Rightarrow> event list \<times> outcome" where
  "get_news ext symbol count =
     (let (evs, out) =
        (case get_ticker_news ext symbol count of
           Inr news \<Rightarrow> ([], Returned news)
         | Inl e \<Rightarrow> except_Exception (''Error fetching news for '' @ symbol) e)
      in (Await (Get_ticker_news symbol count) # evs, out))"

definition search :: "'g externals \<Rightarrow> string \<Rightarrow> int \<Rightarrow> event list \<times> outcome" where
  "search ext q count =
     (let (evs, out) =
        (case search_yahoo_finance ext q count of
           Inr results \<Rightarrow> ([], Returned results)
         | Inl e \<Rightarrow> except_Exception (''Error searching for '' @ q) e)
      in (Await (Search_yahoo_finance q count) # evs, out))"

definition price_history ::
  "'g externals \<Rightarrow> string \<Rightarrow> string \<Rightarrow> string \<Rightarrow> event list \<times> outcome" where
  "price_history ext symbol period interval =
     (let (evs, out) =
        (case get_price_history ext symbol period interval of
           Inr history \<Rightarrow> ([], Returned history)
         | Inl e \<Rightarrow> except_Exception (''Error fetching price history for '' @ symbol) e)
      in (Await (Get_price_history symbol period interval) # evs, out))"

subsection \<open>From a handler's outcome to the HTTP response\<close>

text \<open>
  A returned value is rendered after the handler has returned, outside its \<open>try\<close>: it
  is serialised with \<open>allow_nan=False\<close> and encoded as UTF-8. The serialiser raises
  \<open>ValueError\<close> on a float that is not finite, and the encoding raises
  \<open>UnicodeEncodeError\<close> on a lone surrogate.
\<close>

fun renders :: "json \<Rightarrow> bool" where
  "renders JNull = True"
| "renders (JBool b) = True"
| "renders (JInt i) = True"
| "renders (JFloat (Finite r)) = True"
| "renders (JFloat Infinity) = False"
| "renders (JFloat Neg_Infinity) = False"
| "renders (JFloat NaN) = False"
| "renders (JStr s) = True"
| "renders (JSurrogate cps) = False"
| "renders (JList vs) = list_all renders vs"
| "renders (JDict kvs) = list_all (\<lambda>kv. renders (snd kv)) kvs"

text \<open>
  FastAPI answers a returned value that renders with status 200 and the value as the
  JSON body, an \<open>HTTPException\<close> with its status code and the body
  \<open>{"detail": detail}\<close>, and a request that failed validation with status 422. When
  the returned value does not render, the error is raised where no handler of the file
  can catch it, nothing is logged by the file, and the server answers with status 500
  and the plain text \<open>Internal Server Error\<close>. \<open>content\<close> is the JSON body where the
  file determines one; the body of a 422 response, the pages of the documentation
  endpoints, the plain-text body, and what the server does with an exception that left
  the handler are not described here (\<open>None\<close>).
\<close>

fun status_code :: "outcome \<Rightarrow> int option" where
  "status_code (Returned v) = (if renders v then Some 200 else Some 500)"
| "status_code (HTTPException s d) = Some s"
| "status_code (RequestValidationError errs) = Some 422"
| "status_code (Uncaught e) = None"
| "status_code Served_documentation = Some 200"

fun content :: "outcome \<Rightarrow> json option" where
  "content (Returned v) = (if renders v then Some v else None)"
| "content (HTTPException s d) = Some (JDict [(''detail'', JStr d)])"
| "content (RequestValidationError errs) = None"
| "content (Uncaught e) = None"
| "content Served_documentation = None"

subsection \<open>The route table and the binding of parameters\<close>

text \<open>
  A request as the routing layer sees it: the method, the decoded path, and the query
  parameters by name.
\<close>

record request =
  req_method :: string
  req_path :: string
  query_params :: "string \<rightharpoonup> string"

text \<open>
  A route path such as \<open>/api/ticker/{symbol}\<close> is a literal followed by a parameter.
  The router compiles it to the regular expression \<open>^/api/ticker/(?P<symbol>[^/]+)$\<close>
  and matches the request path against it. A parameter matches one or more characters
  other than \<open>/\<close>; in every path of this application a parameter comes last, so taking
  the longest run of such characters is the only way to match. The final \<open>$\<close> matches
  at the end of the path and also just before a line feed that ends it, so a literal
  path is matched by itself and by itself followed by one line feed.
\<close>

definition path_is :: "string \<Rightarrow> string \<Rightarrow> bool" where
  "path_is p l \<longleftrightarrow> p = l \<or> p = l @ [CHR 0x0A]"

datatype segment = Lit string | Param string

fun strip_prefix :: "string \<Rightarrow> string \<Rightarrow> string option" where
  "strip_prefix [] p = Some p"
| "strip_prefix (c # l) [] = None"
| "strip_prefix (c # l) (d # p) = (if c = d then strip_prefix l p else None)"

fun match_path :: "segment list \<Rightarrow> string \<Rightarrow> (string \<times> string) list option" where
  "match_path [] p = (if path_is p [] then Some [] else None)"
| "match_path (Lit l # segs) p =
     (case strip_prefix l p of None \<Rightarrow> None | Some rest \<Rightarrow> match_path segs rest)"
| "match_path (Param name # segs) p =
     (let v = takeWhile (\<lambda>c. c \<noteq> CHR ''/'') p in
      if v = [] then None
      else (case match_path segs (dropWhile (\<lambda>c. c \<noteq> CHR ''/'') p) of
              None \<Rightarrow> None
            | Some ps \<Rightarrow> Some ((name, v) # ps)))"

text \<open>
  The endpoints of the application: the four that the framework defines for its
  documentation, and the five coroutines of the file.
\<close>

datatype endpoint =
    Openapi | Swagger_ui_html | Swagger_ui_redirect | Redoc_html
  | Health_check | Get_info | Get_news | Search | Price_history

text \<open>
  \<open>app = FastAPI(title=..., lifespan=lifespan)\<close> leaves \<open>openapi_url\<close>, \<open>docs_url\<close>,
  \<open>swagger_ui_oauth2_redirect_url\<close> and \<open>redoc_url\<close> at their defaults, so the
  constructor registers the four documentation routes before any decorator runs. They
  are plain routes of the router, which adds HEAD to a route that takes GET.
\<close>

definition docs_routes :: "(string list \<times> segment list \<times> endpoint) list" where
  "docs_routes =
     [([''GET'', ''HEAD''], [Lit ''/openapi.json''], Openapi),
      ([''GET'', ''HEAD''], [Lit ''/docs''], Swagger_ui_html),
      ([''GET'', ''HEAD''], [Lit ''/docs/oauth2-redirect''], Swagger_ui_redirect),
      ([''GET'', ''HEAD''], [Lit ''/redoc''], Redoc_html)]"

text \<open>The five \<open>@app.get\<close> decorators, in the order of the file. They take GET only.\<close>

definition decorator_routes :: "(string list \<times> segment list \<times> endpoint) list" where
  "decorator_routes =
     [([''GET''], [Lit ''/health''], Health_check),
      ([''GET''], [Lit ''/api/ticker/'', Param ''symbol''], Get_info),
      ([''GET''], [Lit ''/api/news/'', Param ''symbol''], Get_news),
      ([''GET''], [Lit ''/api/search''], Search),
      ([''GET''], [Lit ''/api/price-history/'', Param ''symbol''], Price_history)]"

definition app_routes :: "(string list \<times> segment list \<times> endpoint) list" where
  "app_routes = docs_routes @ decorator_routes"

text \<open>The first route whose methods and path both match handles the request.\<close>

fun find_route ::
  "(string list \<times> segment list \<times> endpoint) list \<Rightarrow> string \<Rightarrow> string \<Rightarrow>
   (endpoint \<times> (string \<times> string) list) option" where
  "find_route [] m p = None"
| "find_route ((ms, segs, ep) # rs) m p =
     (if m \<in> set ms
      then (case match_path segs p of
              Some ps \<Rightarrow> Some (ep, ps)
            | None \<Rightarrow> find_route rs m p)
      else find_route rs m p)"

text \<open>
  Binding the parameters of a handler's signature. A parameter without a default is
  required; a parameter with a default takes it when the request has none; a parameter
  annotated \<open>int\<close> goes through the integer validation. Every parameter is looked at,
  and the locations of all that fail are collected.
\<close>

definition required_str ::
  "string \<Rightarrow> string \<Rightarrow> (string \<rightharpoonup> string) \<Rightarrow> (string \<times> string) list + string" where
  "required_str loc name ps =
     (case ps name of None \<Rightarrow> Inl [(loc, name)] | Some v \<Rightarrow> Inr v)"

definition optional_str :: "string \<Rightarrow> string \<Rightarrow> (string \<rightharpoonup> string) \<Rightarrow> string" where
  "optional_str name dflt ps = (case ps name of None \<Rightarrow> dflt | Some v \<Rightarrow> v)"

definition optional_int ::
  "(string \<Rightarrow> int option) \<Rightarrow> string \<Rightarrow> int \<Rightarrow> (string \<rightharpoonup> string) \<Rightarrow>
   (string \<times> string) list + int" where
  "optional_int validate name dflt ps =
     (case ps name of
        None \<Rightarrow> Inr dflt
      | Some s \<Rightarrow>
          (case validate s of None \<Rightarrow> Inl [(''query'', name)] | Some n \<Rightarrow> Inr n))"

fun errors_of :: "(string \<times> string) list + 'a \<Rightarrow> (string \<times> string) list" where
  "errors_of (Inl errs) = errs"
| "errors_of (Inr v) = []"

fun call_endpoint ::
  "'g externals \<Rightarrow> endpoint \<Rightarrow> (string \<rightharpoonup> string) \<Rightarrow> (string \<rightharpoonup> string) \<Rightarrow>
   event list \<times> outcome" where
  "call_endpoint ext Openapi pp qp = ([], Served_documentation)"
| "call_endpoint ext Swagger_ui_html pp qp = ([], Served_documentation)"
| "call_endpoint ext Swagger_ui_redirect pp qp = ([], Served_documentation)"
| "call_endpoint ext Redoc_html pp qp = ([], Served_documentation)"
| "call_endpoint ext Health_check pp qp = health_check"
| "call_endpoint ext Get_info pp qp =
     (case required_str ''path'' ''symbol'' pp of
        Inr symbol \<Rightarrow> get_info ext symbol
      | Inl errs \<Rightarrow> ([], RequestValidationError errs))"
| "call_endpoint ext Get_news pp qp =
     (case (required_str ''path'' ''symbol'' pp,
            optional_int (int_validate ext) ''count'' 10 qp) of
        (Inr symbol, Inr count) \<Rightarrow> get_news ext symbol count
      | (a, b) \<Rightarrow> ([], RequestValidationError (errors_of a @ errors_of b)))"
| "call_endpoint ext Search pp qp =
     (case (required_str ''query'' ''q'' qp,
            optional_int (int_validate ext) ''count'' 10 qp) of
        (Inr q, Inr count) \<Rightarrow> search ext q count
      | (a, b) \<Rightarrow> ([], RequestValidationError (errors_of a @ errors_of b)))"
| "call_endpoint ext Price_history pp qp =
     (case required_str ''path'' ''symbol'' pp of
        Inr symbol \<Rightarrow>
          price_history ext symbol
            (optional_str ''period'' ''1y'' qp) (optional_str ''interval'' ''1d'' qp)
      | Inl errs \<Rightarrow> ([], RequestValidationError errs))"

text \<open>
  Serving a request: \<open>None\<close> when no route of the table takes it, otherwise the run of
  the endpoint and its outcome.
\<close>

definition dispatch :: "'g externals \<Rightarrow> request \<Rightarrow> (event list \<times> outcome) option" where
  "dispatch ext req =
     (case find_route app_routes (req_method req) (req_path req) of
        None \<Rightarrow> None
      | Some (ep, ps) \<Rightarrow> Some (call_endpoint ext ep (map_of ps) (query_params req)))"

subsection \<open>Starting the server\<close>

text \<open>
  The script block calls \<open>uvicorn.run(app, host="0.0.0.0", port=8000)\<close>. The process
  environment and the command line are there for the script to read, and it reads
  neither: the result is the host and port the listener is bound to.
\<close>

definition main_block :: "(string \<rightharpoonup> string) \<Rightarrow> string list \<Rightarrow> string \<times> int" where
  "main_block environ argv = (''0.0.0.0'', 8000)"

subsection \<open>Sample providers and requests\<close>

text \<open>
  Concrete providers and requests on which the theorems below are run. The base provider
  answers every call; its \<open>json.loads\<close> knows one document, the ticker text of the
  end-to-end example, and its integer validation knows the literals \<open>10\<close> and \<open>3\<close>.
\<close>

definition aapl_text :: string where
  \<open>aapl_text = ''{"symbol":"AAPL","price":150.0}''\<close>

definition aapl_object :: json where
  "aapl_object = JDict [(''symbol'', JStr ''AAPL''), (''price'', JFloat (Finite 150.0))]"

definition sample_ext :: "unit externals" where
  "sample_ext =
     \<lparr>get_ticker_info = (\<lambda>symbol. Inr aapl_text),
      get_ticker_news = (\<lambda>symbol count. Inr (JList [JStr symbol, JInt count])),
      search_yahoo_finance = (\<lambda>q count. Inr (JList [JStr q, JInt count])),
      get_price_history =
        (\<lambda>symbol period interval. Inr (JList [JStr symbol, JStr period, JStr interval])),
      get_top_entities = (),
      json_loads =
        (\<lambda>s. if s = aapl_text then Inr aapl_object
             else Inl ''Expecting value: line 1 column 1 (char 0)''),
      int_validate =
        (\<lambda>s. if s = ''10'' then Some 10 else if s = ''3'' then Some 3 else None)\<rparr>"

text \<open>A provider error, and the cancellation of the awaiting task.\<close>

definition no_data :: exn where
  "no_data = Raised True ''No data found, symbol may be delisted''"

definition CancelledError :: exn where
  "CancelledError = Raised False []"

definition failing_ext :: "unit externals" where
  "failing_ext =
     sample_ext
       \<lparr>get_ticker_info := (\<lambda>symbol. Inl no_data),
        get_ticker_news := (\<lambda>symbol count. Inl no_data),
        search_yahoo_finance := (\<lambda>q count. Inl no_data),
        get_price_history := (\<lambda>symbol period interval. Inl no_data)\<rparr>"

definition cancelled_ext :: "unit externals" where
  "cancelled_ext = sample_ext\<lparr>get_ticker_info := (\<lambda>symbol. Inl CancelledError)\<rparr>"

text \<open>A provider whose ticker text is not JSON.\<close>

definition garbled_ext :: "unit externals" where
  "garbled_ext = sample_ext\<lparr>get_ticker_info := (\<lambda>symbol. Inr ''<html>Too Many Requests</html>'')\<rparr>"

text \<open>
  A provider whose ticker text has \<open>NaN\<close> for the price, which \<open>json.loads\<close> accepts.
\<close>

definition nan_text :: string where
  \<open>nan_text = ''{"symbol":"AAPL","price":NaN}''\<close>

definition nan_object :: json where
  "nan_object = JDict [(''symbol'', JStr ''AAPL''), (''price'', JFloat NaN)]"

definition nan_ext :: "unit externals" where
  "nan_ext =
     sample_ext
       \<lparr>get_ticker_info := (\<lambda>symbol. Inr nan_text),
        json_loads :=
          (\<lambda>s. if s = nan_text then Inr nan_object
               else Inl ''Expecting value: line 1 column 1 (char 0)'')\<rparr>"

text \<open>A provider that rejects a period outside its list.\<close>

definition bad_period :: exn where
  "bad_period = Raised True ''Invalid period''"

definition strict_ext :: "unit externals" where
  "strict_ext =
     sample_ext
       \<lparr>get_price_history :=
          (\<lambda>symbol period interval.
             if period = ''1y'' then Inr (JList [JStr symbol, JStr period, JStr interval])
             else Inl bad_period)\<rparr>"

definition no_query :: "string \<rightharpoonup> string" where
  "no_query = Map.empty"

definition count_3 :: "string \<rightharpoonup> string" where
  "count_3 = [''count'' \<mapsto> ''3'']"

definition count_abc :: "string \<rightharpoonup> string" where
  "count_abc = [''count'' \<mapsto> ''abc'']"

definition period_7w :: "string \<rightharpoonup> string" where
  "period_7w = [''period'' \<mapsto> ''7w'']"

definition search_without_q :: request where
  "search_without_q =
     \<lparr>req_method = ''GET'', req_path = ''/api/search'', query_params = no_query\<rparr>"

definition news_count_abc :: request where
  "news_count_abc =
     \<lparr>req_method = ''GET'', req_path = ''/api/news/AAPL'', query_params = count_abc\<rparr>"

definition configured_environ :: "string \<rightharpoonup> string" where
  "configured_environ = [''HOST'' \<mapsto> ''127.0.0.1'', ''PORT'' \<mapsto> ''9000'']"

definition configured_argv :: "string list" where
  "configured_argv = [''server_http.py'', ''--host'', ''127.0.0.1'', ''--port'', ''9000'']"

definition docs_request :: request where
  "docs_request =
     \<lparr>req_method = ''GET'', req_path = ''/docs'', query_params = no_query\<rparr>"

definition ticker_aapl :: request where
  "ticker_aapl =
     \<lparr>req_method = ''GET'', req_path = ''/api/ticker/AAPL'', query_params = no_query\<rparr>"

subsection \<open>Lemmas about the handlers\<close>

lemma get_info_returns:
  "get_ticker_info ext symbol = Inr info_json \<Longrightarrow> json_loads ext info_json = Inr v \<Longrightarrow>
   get_info ext symbol = ([Await (Get_ticker_info symbol)], Returned v)"
  by (simp add: get_info_def)

lemma get_info_bad_json:
  "get_ticker_info ext symbol = Inr info_json \<Longrightarrow> json_loads ext info_json = Inl d \<Longrightarrow>
   get_info ext symbol =
     ([Await (Get_ticker_info symbol),
       Logger_error (''Error fetching info for '' @ symbol @ '': '' @ d)],
      HTTPException 500 d)"
  by (simp add: get_info_def except_Exception_def JSONDecodeError_def)

lemma get_info_raises:
  "get_ticker_info ext symbol = Inl e \<Longrightarrow> isinstance_Exception e \<Longrightarrow>
   get_info ext symbol =
     ([Await (Get_ticker_info symbol),
       Logger_error (''Error fetching info for '' @ symbol @ '': '' @ str_of e)],
      HTTPException 500 (str_of e))"
  by (simp add: get_info_def except_Exception_def)

lemma get_news_raises:
  "get_ticker_news ext symbol count = Inl e \<Longrightarrow> isinstance_Exception e \<Longrightarrow>
   get_news ext symbol count =
     ([Await (Get_ticker_news symbol count),
       Logger_error (''Error fetching news for '' @ symbol @ '': '' @ str_of e)],
      HTTPException 500 (str_of e))"
  by (simp add: get_news_def except_Exception_def)

lemma search_raises:
  "search_yahoo_finance ext q count = Inl e \<Longrightarrow> isinstance_Exception e \<Longrightarrow>
   search ext q count =
     ([Await (Search_yahoo_finance q count),
       Logger_error (''Error searching for '' @ q @ '': '' @ str_of e)],
      HTTPException 500 (str_of e))"
  by (simp add: search_def except_Exception_def)

lemma price_history_raises:
  "get_price_history ext symbol period interval = Inl e \<Longrightarrow> isinstance_Exception e \<Longrightarrow>
   price_history ext symbol period interval =
     ([Await (Get_price_history symbol period interval),
       Logger_error (''Error fetching price history for '' @ symbol @ '': '' @ str_of e)],
      HTTPException 500 (str_of e))"
  by (simp add: price_history_def except_Exception_def)

lemma calls_get_info: "calls (fst (get_info ext symbol)) = [Get_ticker_info symbol]"
  by (simp add: get_info_def except_Exception_def split: sum.splits)

lemma calls_get_news:
  "calls (fst (get_news ext symbol count)) = [Get_ticker_news symbol count]"
  by (simp add: get_news_def except_Exception_def split: sum.splits)

lemma calls_search:
  "calls (fst (search ext q count)) = [Search_yahoo_finance q count]"
  by (simp add: search_def except_Exception_def split: sum.splits)

lemma calls_price_history:
  "calls (fst (price_history ext symbol period interval)) =
   [Get_price_history symbol period interval]"
  by (simp add: price_history_def except_Exception_def split: sum.splits)

lemma snd_price_history:
  "snd (price_history ext symbol period interval) =
     (case get_price_history ext symbol period interval of
        Inr history \<Rightarrow> Returned history
      | Inl e \<Rightarrow> if isinstance_Exception e then HTTPException 500 (str_of e) else Uncaught e)"
  by (simp add: price_history_def except_Exception_def split: sum.splits prod.splits)

lemma snd_get_news:
  "snd (get_news ext symbol count) =
     (case get_ticker_news ext symbol count of
        Inr news \<Rightarrow> Returned news
      | Inl e \<Rightarrow> if isinstance_Exception e then HTTPException 500 (str_of e) else Uncaught e)"
  by (simp add: get_news_def except_Exception_def split: sum.splits prod.splits)

lemma calls_call_endpoint:
  "Get_top_entities \<notin> set (calls (fst (call_endpoint ext ep pp qp)))"
  by (cases ep)
    (simp_all add: health_check_def calls_get_info calls_get_news calls_search
       calls_price_history split: sum.splits)

lemma handlers_ignore_get_top_entities:
  "call_endpoint (ext\<lparr>get_top_entities := g\<rparr>) ep pp qp = call_endpoint ext ep pp qp"
  by (cases ep)
    (simp_all add: get_info_def get_news_def search_def price_history_def
       split: sum.splits)

subsection \<open>Lemmas about routing\<close>

lemma takeWhile_no_slash:
  "CHR ''/'' \<notin> set S \<Longrightarrow> takeWhile (\<lambda>c. c \<noteq> CHR ''/'') S = S"
  by (induction S) auto

lemma dropWhile_no_slash:
  "CHR ''/'' \<notin> set S \<Longrightarrow> dropWhile (\<lambda>c. c \<noteq> CHR ''/'') S = []"
  by (induction S) auto

lemma strip_prefix_Some: "strip_prefix l p = Some rest \<Longrightarrow> p = l @ rest"
  by (induction l p rule: strip_prefix.induct) (auto split: if_splits)

lemma strip_prefix_append: "strip_prefix l (l @ rest) = Some rest"
  by (induction l) auto

lemma strip_prefix_self: "strip_prefix l l = Some []"
  using strip_prefix_append [of l "[]"] by simp

lemma strip_prefix_iff: "strip_prefix l p = Some rest \<longleftrightarrow> p = l @ rest"
  using strip_prefix_Some [of l p rest] strip_prefix_append [of l rest] by auto

lemma match_lit: "match_path [Lit l] p = Some ps \<longleftrightarrow> path_is p l \<and> ps = []"
proof (cases "strip_prefix l p")
  case None
  have "\<not> path_is p l"
  proof
    assume "path_is p l"
    then have "\<exists>rest. p = l @ rest" by (auto simp: path_is_def)
    then obtain rest where "strip_prefix l p = Some rest"
      by (auto simp: strip_prefix_append)
    with None show False by simp
  qed
  with None show ?thesis by simp
next
  case (Some rest)
  then have "p = l @ rest" by (rule strip_prefix_Some)
  with Some show ?thesis by (auto simp: path_is_def)
qed

lemma match_lit_None: "match_path [Lit l] p = None \<longleftrightarrow> \<not> path_is p l"
  using match_lit [of l p "[]"] by (auto split: option.splits if_splits)

lemma takeWhile_all_of_dropWhile_Nil: "dropWhile P xs = [] \<Longrightarrow> takeWhile P xs = xs"
  by (metis append_Nil2 takeWhile_dropWhile_id)

lemma dropWhile_not_line_feed:
  "dropWhile (\<lambda>c. c \<noteq> CHR ''/'') xs \<noteq> [CHR 0x0A]"
proof
  assume a: "dropWhile (\<lambda>c. c \<noteq> CHR ''/'') xs = [CHR 0x0A]"
  then have "dropWhile (\<lambda>c. c \<noteq> CHR ''/'') xs \<noteq> []" by simp
  then have "\<not> (hd (dropWhile (\<lambda>c. c \<noteq> CHR ''/'') xs) \<noteq> CHR ''/'')"
    by (rule hd_dropWhile)
  with a show False by simp
qed

lemma match_param:
  "match_path [Param n] rest = Some ps \<longleftrightarrow>
   rest \<noteq> [] \<and> CHR ''/'' \<notin> set rest \<and> ps = [(n, rest)]"
proof
  assume m: "match_path [Param n] rest = Some ps"
  then have ne: "takeWhile (\<lambda>c. c \<noteq> CHR ''/'') rest \<noteq> []"
    and ps: "ps = [(n, takeWhile (\<lambda>c. c \<noteq> CHR ''/'') rest)]"
    and e: "path_is (dropWhile (\<lambda>c. c \<noteq> CHR ''/'') rest) []"
    by (auto simp: Let_def split: if_splits option.splits)
  from e dropWhile_not_line_feed [of rest]
  have d: "dropWhile (\<lambda>c. c \<noteq> CHR ''/'') rest = []"
    by (simp add: path_is_def)
  then have t: "takeWhile (\<lambda>c. c \<noteq> CHR ''/'') rest = rest"
    by (rule takeWhile_all_of_dropWhile_Nil)
  from d have "CHR ''/'' \<notin> set rest"
    by (auto simp: dropWhile_eq_Nil_conv)
  with ne ps t show "rest \<noteq> [] \<and> CHR ''/'' \<notin> set rest \<and> ps = [(n, rest)]"
    by simp
next
  assume "rest \<noteq> [] \<and> CHR ''/'' \<notin> set rest \<and> ps = [(n, rest)]"
  then show "match_path [Param n] rest = Some ps"
    by (simp add: takeWhile_no_slash dropWhile_no_slash path_is_def)
qed

lemma match_lit_param:
  "match_path [Lit l, Param n] p = Some ps \<longleftrightarrow>
   (\<exists>S. S \<noteq> [] \<and> CHR ''/'' \<notin> set S \<and> p = l @ S \<and> ps = [(n, S)])"
proof
  assume "match_path [Lit l, Param n] p = Some ps"
  then obtain rest where r: "strip_prefix l p = Some rest"
    and m: "match_path [Param n] rest = Some ps"
    by (auto split: option.splits)
  from m have "rest \<noteq> [] \<and> CHR ''/'' \<notin> set rest \<and> ps = [(n, rest)]"
    by (rule match_param [THEN iffD1])
  with r show "\<exists>S. S \<noteq> [] \<and> CHR ''/'' \<notin> set S \<and> p = l @ S \<and> ps = [(n, S)]"
    by (auto simp: strip_prefix_iff)
next
  assume "\<exists>S. S \<noteq> [] \<and> CHR ''/'' \<notin> set S \<and> p = l @ S \<and> ps = [(n, S)]"
  then obtain S where S: "S \<noteq> [] \<and> CHR ''/'' \<notin> set S \<and> ps = [(n, S)]" and p: "p = l @ S"
    by blast
  from S have "match_path [Param n] S = Some ps" by (rule match_param [THEN iffD2])
  with p show "match_path [Lit l, Param n] p = Some ps"
    by (simp add: strip_prefix_append)
qed

lemma match_lit_param_None:
  "match_path [Lit l, Param n] p = None \<longleftrightarrow>
   \<not> (\<exists>S. S \<noteq> [] \<and> CHR ''/'' \<notin> set S \<and> p = l @ S)"
proof -
  have "match_path [Lit l, Param n] p \<noteq> None \<longleftrightarrow>
    (\<exists>S. S \<noteq> [] \<and> CHR ''/'' \<notin> set S \<and> p = l @ S)"
    using match_lit_param [of l n p] by (cases "match_path [Lit l, Param n] p") auto
  then show ?thesis by blast
qed

lemma find_route_None_Cons:
  "find_route ((ms, segs, ep) # rs) m p = None \<longleftrightarrow>
   (m \<notin> set ms \<or> match_path segs p = None) \<and> find_route rs m p = None"
  by (auto split: option.splits)

text \<open>
  A table of the shape of \<open>app_routes\<close>, with the literals left open: which requests it
  routes.
\<close>

lemma find_route_shape:
  "find_route
     ([([g, h], [Lit d1], f1), ([g, h], [Lit d2], f2), ([g, h], [Lit d3], f3),
       ([g, h], [Lit d4], f4)] @
      [([g], [Lit l1], e1), ([g], [Lit l2, Param n2], e2), ([g], [Lit l3, Param n3], e3),
       ([g], [Lit l4], e4), ([g], [Lit l5, Param n5], e5)]) m p \<noteq> None \<longleftrightarrow>
   m = g \<and>
   (path_is p l1 \<or>
    (\<exists>S. S \<noteq> [] \<and> CHR ''/'' \<notin> set S \<and> p = l2 @ S) \<or>
    (\<exists>S. S \<noteq> [] \<and> CHR ''/'' \<notin> set S \<and> p = l3 @ S) \<or>
    path_is p l4 \<or>
    (\<exists>S. S \<noteq> [] \<and> CHR ''/'' \<notin> set S \<and> p = l5 @ S)) \<or>
   (m = g \<or> m = h) \<and>
   (path_is p d1 \<or> path_is p d2 \<or> path_is p d3 \<or> path_is p d4)"
  apply (simp only: append.simps find_route_None_Cons find_route.simps(1)
      match_lit_None match_lit_param_None set_simps insert_iff empty_iff)
  apply blast
  done

lemma find_route_app:
  "find_route app_routes m p \<noteq> None \<longleftrightarrow>
   m = ''GET'' \<and>
   (path_is p ''/health'' \<or>
    (\<exists>S. S \<noteq> [] \<and> CHR ''/'' \<notin> set S \<and> p = ''/api/ticker/'' @ S) \<or>
    (\<exists>S. S \<noteq> [] \<and> CHR ''/'' \<notin> set S \<and> p = ''/api/news/'' @ S) \<or>
    path_is p ''/api/search'' \<or>
    (\<exists>S. S \<noteq> [] \<and> CHR ''/'' \<notin> set S \<and> p = ''/api/price-history/'' @ S)) \<or>
   (m = ''GET'' \<or> m = ''HEAD'') \<and>
   (path_is p ''/openapi.json'' \<or> path_is p ''/docs'' \<or>
    path_is p ''/docs/oauth2-redirect'' \<or> path_is p ''/redoc'')"
  unfolding app_routes_def docs_routes_def decorator_routes_def
  by (rule find_route_shape)

lemma route_health:
  "find_route app_routes ''GET'' ''/health'' = Some (Health_check, [])"
  by (simp add: app_routes_def docs_routes_def decorator_routes_def path_is_def)

lemma route_search:
  "find_route app_routes ''GET'' ''/api/search'' = Some (Search, [])"
  by (simp add: app_routes_def docs_routes_def decorator_routes_def path_is_def)

lemma route_ticker:
  "S \<noteq> [] \<Longrightarrow> CHR ''/'' \<notin> set S \<Longrightarrow>
   find_route app_routes ''GET'' (''/api/ticker/'' @ S) = Some (Get_info, [(''symbol'', S)])"
  by (simp add: app_routes_def docs_routes_def decorator_routes_def path_is_def
      takeWhile_no_slash dropWhile_no_slash)

lemma route_news:
  "S \<noteq> [] \<Longrightarrow> CHR ''/'' \<notin> set S \<Longrightarrow>
   find_route app_routes ''GET'' (''/api/news/'' @ S) = Some (Get_news, [(''symbol'', S)])"
  by (simp add: app_routes_def docs_routes_def decorator_routes_def path_is_def
      takeWhile_no_slash dropWhile_no_slash)

lemma route_price_history:
  "S \<noteq> [] \<Longrightarrow> CHR ''/'' \<notin> set S \<Longrightarrow>
   find_route app_routes ''GET'' (''/api/price-history/'' @ S) =
   Some (Price_history, [(''symbol'', S)])"
  by (simp add: app_routes_def docs_routes_def decorator_routes_def path_is_def
      takeWhile_no_slash dropWhile_no_slash)

lemma dispatch_health:
  "dispatch ext \<lparr>req_method = ''GET'', req_path = ''/health'', query_params = qp\<rparr> =
   Some health_check"
  using route_health by (simp add: dispatch_def)

lemma dispatch_ticker:
  "S \<noteq> [] \<Longrightarrow> CHR ''/'' \<notin> set S \<Longrightarrow>
   dispatch ext \<lparr>req_method = ''GET'', req_path = ''/api/ticker/'' @ S, query_params = qp\<rparr> =
   Some (get_info ext S)"
  using route_ticker [of S] by (simp add: dispatch_def required_str_def)

lemma dispatch_news:
  "S \<noteq> [] \<Longrightarrow> CHR ''/'' \<notin> set S \<Longrightarrow>
   dispatch ext \<lparr>req_method = ''GET'', req_path = ''/api/news/'' @ S, query_params = qp\<rparr> =
   Some (call_endpoint ext Get_news [''symbol'' \<mapsto> S] qp)"
  using route_news [of S] by (simp add: dispatch_def)

lemma dispatch_search:
  "dispatch ext \<lparr>req_method = ''GET'', req_path = ''/api/search'', query_params = qp\<rparr> =
   Some (call_endpoint ext Search Map.empty qp)"
  using route_search by (simp add: dispatch_def)

lemma dispatch_price_history:
  "S \<noteq> [] \<Longrightarrow> CHR ''/'' \<notin> set S \<Longrightarrow>
   dispatch ext
     \<lparr>req_method = ''GET'', req_path = ''/api/price-history/'' @ S, query_params = qp\<rparr> =
   Some (price_history ext S
           (case qp ''period'' of None \<Rightarrow> ''1y'' | Some P \<Rightarrow> P)
           (case qp ''interval'' of None \<Rightarrow> ''1d'' | Some I \<Rightarrow> I))"
  using route_price_history [of S]
  by (simp add: dispatch_def required_str_def optional_str_def)

lemma optional_str_other:
  "name \<noteq> k \<Longrightarrow> optional_str name dflt (qp(k \<mapsto> v)) = optional_str name dflt qp"
  by (simp add: optional_str_def)

lemma required_str_other:
  "name \<noteq> k \<Longrightarrow> required_str loc name (qp(k \<mapsto> v)) = required_str loc name qp"
  by (simp add: required_str_def)

lemma optional_int_default:
  "qp name = None \<Longrightarrow> validate s = Some dflt \<Longrightarrow>
   optional_int validate name dflt (qp(name \<mapsto> s)) = optional_int validate name dflt qp"
  by (simp add: optional_int_def)

lemma call_endpoint_count_default:
  "qp ''count'' = None \<Longrightarrow> int_validate ext ''10'' = Some 10 \<Longrightarrow>
   call_endpoint ext ep pp (qp(''count'' \<mapsto> ''10'')) = call_endpoint ext ep pp qp"
  by (cases ep)
    (simp_all add: optional_str_other required_str_other optional_int_default
       split: sum.splits)

lemma dispatch_None:
  "dispatch ext req = None \<longleftrightarrow>
   find_route app_routes (req_method req) (req_path req) = None"
  by (simp add: dispatch_def split: option.splits)

section \<open>The claims\<close>

subsection \<open>C1: provider failures\<close>

text \<open>
  C1, as amended. In each of the four endpoints that call the provider
  (\<open>/api/ticker/{symbol}\<close>, \<open>/api/news/{symbol}\<close>, \<open>/api/search\<close>,
  \<open>/api/price-history/{symbol}\<close>), whenever the provider call raises an exception that is
  an instance of \<open>Exception\<close>, whatever its kind, the handler logs the error with the
  symbol or query and answers with status 500 and the body \<open>{"detail": str(e)}\<close>. No
  such error is mapped to another status code.
\<close>

theorem provider_exception_gives_500:
  assumes "isinstance_Exception e"
  shows
    "(get_ticker_info ext symbol = Inl e \<longrightarrow>
        get_info ext symbol =
          ([Await (Get_ticker_info symbol),
            Logger_error (''Error fetching info for '' @ symbol @ '': '' @ str_of e)],
           HTTPException 500 (str_of e))) \<and>
     (get_ticker_news ext symbol count = Inl e \<longrightarrow>
        get_news ext symbol count =
          ([Await (Get_ticker_news symbol count),
            Logger_error (''Error fetching news for '' @ symbol @ '': '' @ str_of e)],
           HTTPException 500 (str_of e))) \<and>
     (search_yahoo_finance ext q count = Inl e \<longrightarrow>
        search ext q count =
          ([Await (Search_yahoo_finance q count),
            Logger_error (''Error searching for '' @ q @ '': '' @ str_of e)],
           HTTPException 500 (str_of e))) \<and>
     (get_price_history ext symbol period interval = Inl e \<longrightarrow>
        price_history ext symbol period interval =
          ([Await (Get_price_history symbol period interval),
            Logger_error (''Error fetching price history for '' @ symbol @ '': '' @ str_of e)],
           HTTPException 500 (str_of e))) \<and>
     status_code (HTTPException 500 (str_of e)) = Some 500 \<and>
     content (HTTPException 500 (str_of e)) = Some (JDict [(''detail'', JStr (str_of e))])"
  using assms
  by (simp add: get_info_raises get_news_raises search_raises price_history_raises)

theorem provider_exception_gives_500_witness:
  "isinstance_Exception no_data \<and>
   get_ticker_info failing_ext ''AAPL'' = Inl no_data \<and>
   get_ticker_news failing_ext ''AAPL'' 10 = Inl no_data \<and>
   search_yahoo_finance failing_ext ''apple'' 10 = Inl no_data \<and>
   get_price_history failing_ext ''AAPL'' ''1y'' ''1d'' = Inl no_data \<and>
   snd (get_info failing_ext ''AAPL'') = HTTPException 500 (str_of no_data) \<and>
   snd (get_news failing_ext ''AAPL'' 10) = HTTPException 500 (str_of no_data) \<and>
   snd (search failing_ext ''apple'' 10) = HTTPException 500 (str_of no_data) \<and>
   snd (price_history failing_ext ''AAPL'' ''1y'' ''1d'') = HTTPException 500 (str_of no_data) \<and>
   content (HTTPException 500 (str_of no_data)) =
     Some (JDict [(''detail'', JStr ''No data found, symbol may be delisted'')])"
  using provider_exception_gives_500
    [of no_data failing_ext "''AAPL''" 10 "''apple''" "''1y''" "''1d''"]
  by (simp add: failing_ext_def no_data_def)

text \<open>
  The claim as it was stated, for a failure of any kind, fails when the awaited call is
  cancelled: \<open>CancelledError\<close> is not an instance of \<open>Exception\<close>, the clause does not
  match, and the handler produces no 500.
\<close>

theorem cancelled_call_is_not_500:
  "get_ticker_info cancelled_ext ''AAPL'' = Inl CancelledError \<and>
   get_info cancelled_ext ''AAPL'' =
     ([Await (Get_ticker_info ''AAPL'')], Uncaught CancelledError) \<and>
   status_code (snd (get_info cancelled_ext ''AAPL'')) \<noteq> Some 500"
  by (simp add: cancelled_ext_def CancelledError_def get_info_def except_Exception_def)

subsection \<open>C2: the ticker text is parsed\<close>

text \<open>
  C2, as amended. When the provider's \<open>get_ticker_info\<close> succeeds for a symbol and
  returns text that \<open>json.loads\<close> decodes to a value that renders (no \<open>NaN\<close>, no
  infinite number, no lone surrogate in it), \<open>GET /api/ticker/{symbol}\<close> answers with
  status 200 and the body is the decoded value, not the text as a JSON string. The
  provider text of the example yields the object with \<open>symbol\<close> and \<open>price\<close>.
\<close>

theorem ticker_info_is_parsed:
  assumes "get_ticker_info ext symbol = Inr info_json"
    and "json_loads ext info_json = Inr v"
    and "renders v"
  shows
    "get_info ext symbol = ([Await (Get_ticker_info symbol)], Returned v) \<and>
     status_code (snd (get_info ext symbol)) = Some 200 \<and>
     content (snd (get_info ext symbol)) = Some v \<and>
     (symbol \<noteq> [] \<and> CHR ''/'' \<notin> set symbol \<longrightarrow>
        dispatch ext
          \<lparr>req_method = ''GET'', req_path = ''/api/ticker/'' @ symbol, query_params = qp\<rparr> =
        Some ([Await (Get_ticker_info symbol)], Returned v))"
proof -
  have r: "get_info ext symbol = ([Await (Get_ticker_info symbol)], Returned v)"
    using assms(1,2) by (rule get_info_returns)
  with dispatch_ticker [where S = symbol and ext = ext and qp = qp] assms(3)
  show ?thesis by simp
qed

theorem ticker_info_is_parsed_witness:
  \<open>get_ticker_info sample_ext ''AAPL'' = Inr ''{"symbol":"AAPL","price":150.0}'' \<and>
   json_loads sample_ext ''{"symbol":"AAPL","price":150.0}'' = Inr aapl_object \<and>
   renders aapl_object \<and>
   ''AAPL'' \<noteq> [] \<and> CHR ''/'' \<notin> set ''AAPL'' \<and>
   dispatch sample_ext ticker_aapl = Some ([Await (Get_ticker_info ''AAPL'')], Returned aapl_object) \<and>
   status_code (snd (get_info sample_ext ''AAPL'')) = Some 200 \<and>
   content (snd (get_info sample_ext ''AAPL'')) =
     Some (JDict [(''symbol'', JStr ''AAPL''), (''price'', JFloat (Finite 150.0))]) \<and>
   content (snd (get_info sample_ext ''AAPL'')) \<noteq>
     Some (JStr ''{"symbol":"AAPL","price":150.0}'')\<close>
  using ticker_info_is_parsed [of sample_ext "''AAPL''" aapl_text aapl_object no_query]
  by (simp add: sample_ext_def aapl_text_def aapl_object_def ticker_aapl_def)

text \<open>
  The claim as it was stated, for every symbol for which the provider succeeds, fails
  when the provider's text holds \<open>NaN\<close>: the provider call succeeds, \<open>json.loads\<close>
  decodes the text, the handler returns the value and logs nothing, and the response
  is a 500 without a JSON body.
\<close>

theorem nan_price_is_not_200:
  "get_ticker_info nan_ext ''AAPL'' = Inr nan_text \<and>
   json_loads nan_ext nan_text = Inr nan_object \<and>
   get_info nan_ext ''AAPL'' = ([Await (Get_ticker_info ''AAPL'')], Returned nan_object) \<and>
   status_code (snd (get_info nan_ext ''AAPL'')) = Some 500 \<and>
   status_code (snd (get_info nan_ext ''AAPL'')) \<noteq> Some 200 \<and>
   content (snd (get_info nan_ext ''AAPL'')) = None"
  by (simp add: nan_ext_def sample_ext_def nan_text_def nan_object_def get_info_def)

subsection \<open>C3: the health check\<close>

text \<open>
  C3. \<open>GET /health\<close>, with any query and whatever the provider would do, is answered
  with status 200 and the body \<open>{"status": "ok"}\<close>, and the handler calls no provider
  operation.
\<close>

theorem health_is_always_ok:
  "dispatch ext \<lparr>req_method = ''GET'', req_path = ''/health'', query_params = qp\<rparr> =
     Some ([], Returned (JDict [(''status'', JStr ''ok'')])) \<and>
   status_code (snd health_check) = Some 200 \<and>
   content (snd health_check) = Some (JDict [(''status'', JStr ''ok'')]) \<and>
   calls (fst health_check) = []"
  by (simp add: dispatch_health) (simp add: health_check_def)

subsection \<open>C4: period and interval\<close>

text \<open>
  C4. \<open>GET /api/price-history/{S}?period=P&interval=I\<close> calls the provider's
  \<open>get_price_history\<close> once, with exactly \<open>S\<close>, \<open>P\<close> and \<open>I\<close>, whatever strings they
  are; an absent \<open>period\<close> is \<open>1y\<close> and an absent \<open>interval\<close> is \<open>1d\<close>. The
  response is decided by the provider's answer alone: an error it raises to reject the
  arguments gives status 500, and the outcome is never a validation error of the gateway.
\<close>

theorem price_history_arguments_pass_through:
  "calls (fst (price_history ext S P I)) = [Get_price_history S P I] \<and>
   snd (price_history ext S P I) =
     (case get_price_history ext S P I of
        Inr history \<Rightarrow> Returned history
      | Inl e \<Rightarrow> if isinstance_Exception e then HTTPException 500 (str_of e) else Uncaught e) \<and>
   (S \<noteq> [] \<and> CHR ''/'' \<notin> set S \<longrightarrow>
      dispatch ext
        \<lparr>req_method = ''GET'', req_path = ''/api/price-history/'' @ S, query_params = qp\<rparr> =
      Some (price_history ext S
              (case qp ''period'' of None \<Rightarrow> ''1y'' | Some P' \<Rightarrow> P')
              (case qp ''interval'' of None \<Rightarrow> ''1d'' | Some I' \<Rightarrow> I'))) \<and>
   (get_price_history ext S P I = Inl e \<and> isinstance_Exception e \<longrightarrow>
      status_code (snd (price_history ext S P I)) = Some 500 \<and>
      content (snd (price_history ext S P I)) = Some (JDict [(''detail'', JStr (str_of e))])) \<and>
   snd (price_history ext S P I) \<noteq> RequestValidationError errs"
proof (intro conjI impI)
  show "calls (fst (price_history ext S P I)) = [Get_price_history S P I]"
    by (rule calls_price_history)
  show "snd (price_history ext S P I) =
     (case get_price_history ext S P I of
        Inr history \<Rightarrow> Returned history
      | Inl e \<Rightarrow> if isinstance_Exception e then HTTPException 500 (str_of e) else Uncaught e)"
    by (rule snd_price_history)
  show "snd (price_history ext S P I) \<noteq> RequestValidationError errs"
    by (simp add: snd_price_history split: sum.splits)
next
  assume "S \<noteq> [] \<and> CHR ''/'' \<notin> set S"
  then show "dispatch ext
        \<lparr>req_method = ''GET'', req_path = ''/api/price-history/'' @ S, query_params = qp\<rparr> =
      Some (price_history ext S
              (case qp ''period'' of None \<Rightarrow> ''1y'' | Some P' \<Rightarrow> P')
              (case qp ''interval'' of None \<Rightarrow> ''1d'' | Some I' \<Rightarrow> I'))"
    using dispatch_price_history [where S = S and ext = ext and qp = qp] by simp
next
  assume a: "get_price_history ext S P I = Inl e \<and> isinstance_Exception e"
  then show "status_code (snd (price_history ext S P I)) = Some 500"
    by (simp add: price_history_raises)
  from a show "content (snd (price_history ext S P I)) =
      Some (JDict [(''detail'', JStr (str_of e))])"
    by (simp add: price_history_raises)
qed

theorem price_history_arguments_pass_through_witness:
  "''AAPL'' \<noteq> [] \<and> CHR ''/'' \<notin> set ''AAPL'' \<and>
   get_price_history strict_ext ''AAPL'' ''7w'' ''1d'' = Inl bad_period \<and>
   isinstance_Exception bad_period \<and>
   dispatch strict_ext
     \<lparr>req_method = ''GET'', req_path = ''/api/price-history/AAPL'', query_params = period_7w\<rparr> =
     Some (price_history strict_ext ''AAPL'' ''7w'' ''1d'') \<and>
   calls (fst (price_history strict_ext ''AAPL'' ''7w'' ''1d'')) =
     [Get_price_history ''AAPL'' ''7w'' ''1d''] \<and>
   status_code (snd (price_history strict_ext ''AAPL'' ''7w'' ''1d'')) = Some 500 \<and>
   content (snd (price_history strict_ext ''AAPL'' ''7w'' ''1d'')) =
     Some (JDict [(''detail'', JStr ''Invalid period'')])"
  using price_history_arguments_pass_through
    [of strict_ext "''AAPL''" "''7w''" "''1d''" period_7w bad_period]
  by (simp add: strict_ext_def sample_ext_def bad_period_def period_7w_def)

subsection \<open>C5: the news count\<close>

text \<open>
  C5. \<open>GET /api/news/{S}?count=N\<close> calls the provider's \<open>get_ticker_news\<close> once, with
  exactly \<open>S\<close> and \<open>N\<close>, and the response is decided by that call alone; without
  \<open>count\<close> the handler runs with 10, and the request is served exactly as the one with
  \<open>count=10\<close>.
\<close>

theorem news_count_passes_through:
  "calls (fst (get_news ext S N)) = [Get_ticker_news S N] \<and>
   snd (get_news ext S N) =
     (case get_ticker_news ext S N of
        Inr news \<Rightarrow> Returned news
      | Inl e \<Rightarrow> if isinstance_Exception e then HTTPException 500 (str_of e) else Uncaught e) \<and>
   (S \<noteq> [] \<and> CHR ''/'' \<notin> set S \<and> qp ''count'' = Some c \<and> int_validate ext c = Some N \<longrightarrow>
      dispatch ext
        \<lparr>req_method = ''GET'', req_path = ''/api/news/'' @ S, query_params = qp\<rparr> =
      Some (get_news ext S N)) \<and>
   (S \<noteq> [] \<and> CHR ''/'' \<notin> set S \<and> qp0 ''count'' = None \<longrightarrow>
      dispatch ext
        \<lparr>req_method = ''GET'', req_path = ''/api/news/'' @ S, query_params = qp0\<rparr> =
      Some (get_news ext S 10)) \<and>
   (qp0 ''count'' = None \<and> int_validate ext ''10'' = Some 10 \<longrightarrow>
      dispatch ext
        \<lparr>req_method = ''GET'', req_path = ''/api/news/'' @ S, query_params = qp0\<rparr> =
      dispatch ext
        \<lparr>req_method = ''GET'', req_path = ''/api/news/'' @ S,
         query_params = qp0(''count'' \<mapsto> ''10'')\<rparr>)"
proof (intro conjI impI)
  show "calls (fst (get_news ext S N)) = [Get_ticker_news S N]"
    by (rule calls_get_news)
  show "snd (get_news ext S N) =
     (case get_ticker_news ext S N of
        Inr news \<Rightarrow> Returned news
      | Inl e \<Rightarrow> if isinstance_Exception e then HTTPException 500 (str_of e) else Uncaught e)"
    by (rule snd_get_news)
next
  assume "S \<noteq> [] \<and> CHR ''/'' \<notin> set S \<and> qp ''count'' = Some c \<and> int_validate ext c = Some N"
  then show "dispatch ext
        \<lparr>req_method = ''GET'', req_path = ''/api/news/'' @ S, query_params = qp\<rparr> =
      Some (get_news ext S N)"
    using dispatch_news [where S = S and ext = ext and qp = qp]
    by (simp add: required_str_def optional_int_def)
next
  assume "S \<noteq> [] \<and> CHR ''/'' \<notin> set S \<and> qp0 ''count'' = None"
  then show "dispatch ext
        \<lparr>req_method = ''GET'', req_path = ''/api/news/'' @ S, query_params = qp0\<rparr> =
      Some (get_news ext S 10)"
    using dispatch_news [where S = S and ext = ext and qp = qp0]
    by (simp add: required_str_def optional_int_def)
next
  assume "qp0 ''count'' = None \<and> int_validate ext ''10'' = Some 10"
  then show "dispatch ext
        \<lparr>req_method = ''GET'', req_path = ''/api/news/'' @ S, query_params = qp0\<rparr> =
      dispatch ext
        \<lparr>req_method = ''GET'', req_path = ''/api/news/'' @ S,
         query_params = qp0(''count'' \<mapsto> ''10'')\<rparr>"
    by (simp add: dispatch_def call_endpoint_count_default split: option.splits)
qed

theorem news_count_passes_through_witness:
  "''AAPL'' \<noteq> [] \<and> CHR ''/'' \<notin> set ''AAPL'' \<and>
   count_3 ''count'' = Some ''3'' \<and> int_validate sample_ext ''3'' = Some 3 \<and>
   no_query ''count'' = None \<and> int_validate sample_ext ''10'' = Some 10 \<and>
   dispatch sample_ext
     \<lparr>req_method = ''GET'', req_path = ''/api/news/AAPL'', query_params = count_3\<rparr> =
     Some ([Await (Get_ticker_news ''AAPL'' 3)], Returned (JList [JStr ''AAPL'', JInt 3])) \<and>
   dispatch sample_ext
     \<lparr>req_method = ''GET'', req_path = ''/api/news/AAPL'', query_params = no_query\<rparr> =
     Some ([Await (Get_ticker_news ''AAPL'' 10)], Returned (JList [JStr ''AAPL'', JInt 10])) \<and>
   dispatch sample_ext
     \<lparr>req_method = ''GET'', req_path = ''/api/news/AAPL'', query_params = no_query\<rparr> =
   dispatch sample_ext
     \<lparr>req_method = ''GET'', req_path = ''/api/news/AAPL'',
      query_params = no_query(''count'' \<mapsto> ''10'')\<rparr>"
  using news_count_passes_through [of sample_ext "''AAPL''" 3 count_3 "''3''" no_query]
  by (simp add: sample_ext_def count_3_def no_query_def get_news_def dispatch_def
      app_routes_def docs_routes_def decorator_routes_def path_is_def
      required_str_def optional_int_def)

subsection \<open>C6: requests that fail validation\<close>

text \<open>
  C6, as amended. Client input errors are answered by the routing layer with status 422:
  \<open>GET /api/search\<close> without \<open>q\<close> (which has no default), and a request to
  \<open>/api/search\<close> or \<open>/api/news/{S}\<close> whose \<open>count\<close> is not an integer. In each case
  the handler is not called: the run has no event, so no provider call is made.
\<close>

theorem invalid_parameters_give_422:
  "(qp ''q'' = None \<longrightarrow>
      dispatch ext \<lparr>req_method = ''GET'', req_path = ''/api/search'', query_params = qp\<rparr> =
      Some ([], RequestValidationError
                  ((''query'', ''q'') #
                   errors_of (optional_int (int_validate ext) ''count'' 10 qp)))) \<and>
   (qp' ''count'' = Some c \<and> int_validate ext c = None \<longrightarrow>
      dispatch ext \<lparr>req_method = ''GET'', req_path = ''/api/search'', query_params = qp'\<rparr> =
      Some ([], RequestValidationError
                  (errors_of (required_str ''query'' ''q'' qp') @ [(''query'', ''count'')]))) \<and>
   (qp' ''count'' = Some c \<and> int_validate ext c = None \<and> S \<noteq> [] \<and> CHR ''/'' \<notin> set S \<longrightarrow>
      dispatch ext
        \<lparr>req_method = ''GET'', req_path = ''/api/news/'' @ S, query_params = qp'\<rparr> =
      Some ([], RequestValidationError [(''query'', ''count'')])) \<and>
   status_code (RequestValidationError errs) = Some 422"
proof (intro conjI impI)
  assume "qp ''q'' = None"
  then show "dispatch ext
      \<lparr>req_method = ''GET'', req_path = ''/api/search'', query_params = qp\<rparr> =
      Some ([], RequestValidationError
                  ((''query'', ''q'') #
                   errors_of (optional_int (int_validate ext) ''count'' 10 qp)))"
    using dispatch_search [where ext = ext and qp = qp]
    by (simp add: required_str_def)
next
  assume "qp' ''count'' = Some c \<and> int_validate ext c = None"
  then show "dispatch ext
      \<lparr>req_method = ''GET'', req_path = ''/api/search'', query_params = qp'\<rparr> =
      Some ([], RequestValidationError
                  (errors_of (required_str ''query'' ''q'' qp') @ [(''query'', ''count'')]))"
    using dispatch_search [where ext = ext and qp = qp']
    by (simp add: optional_int_def split: sum.splits)
next
  assume "qp' ''count'' = Some c \<and> int_validate ext c = None \<and> S \<noteq> [] \<and> CHR ''/'' \<notin> set S"
  then show "dispatch ext
        \<lparr>req_method = ''GET'', req_path = ''/api/news/'' @ S, query_params = qp'\<rparr> =
      Some ([], RequestValidationError [(''query'', ''count'')])"
    using dispatch_news [where S = S and ext = ext and qp = qp']
    by (simp add: optional_int_def required_str_def)
next
  show "status_code (RequestValidationError errs) = Some 422"
    by simp
qed

theorem invalid_parameters_give_422_witness:
  "no_query ''q'' = None \<and>
   count_abc ''count'' = Some ''abc'' \<and> int_validate sample_ext ''abc'' = None \<and>
   ''AAPL'' \<noteq> [] \<and> CHR ''/'' \<notin> set ''AAPL'' \<and>
   dispatch sample_ext
     \<lparr>req_method = ''GET'', req_path = ''/api/search'', query_params = no_query\<rparr> =
     Some ([], RequestValidationError [(''query'', ''q'')]) \<and>
   dispatch sample_ext
     \<lparr>req_method = ''GET'', req_path = ''/api/search'', query_params = count_abc\<rparr> =
     Some ([], RequestValidationError [(''query'', ''q''), (''query'', ''count'')]) \<and>
   dispatch sample_ext
     \<lparr>req_method = ''GET'', req_path = ''/api/news/AAPL'', query_params = count_abc\<rparr> =
     Some ([], RequestValidationError [(''query'', ''count'')])"
  using invalid_parameters_give_422
    [of no_query sample_ext count_abc "''abc''" "''AAPL''"]
  by (simp add: sample_ext_def count_abc_def no_query_def dispatch_def
      app_routes_def docs_routes_def decorator_routes_def path_is_def
      required_str_def optional_int_def)

text \<open>
  The claim as it was stated gives these responses status 400. A search without \<open>q\<close>
  and a news request with \<open>count=abc\<close> are both answered with 422.
\<close>

theorem validation_status_is_not_400:
  "dispatch sample_ext search_without_q =
     Some ([], RequestValidationError [(''query'', ''q'')]) \<and>
   dispatch sample_ext news_count_abc =
     Some ([], RequestValidationError [(''query'', ''count'')]) \<and>
   status_code (RequestValidationError [(''query'', ''q'')]) = Some 422 \<and>
   status_code (RequestValidationError [(''query'', ''count'')]) = Some 422 \<and>
   status_code (RequestValidationError [(''query'', ''q'')]) \<noteq> Some 400 \<and>
   status_code (RequestValidationError [(''query'', ''count'')]) \<noteq> Some 400"
  by (simp add: search_without_q_def news_count_abc_def sample_ext_def count_abc_def
      no_query_def dispatch_def app_routes_def docs_routes_def decorator_routes_def
      path_is_def required_str_def optional_int_def)

subsection \<open>C7: the route table\<close>

text \<open>
  C7, as amended. The file's own decorators register exactly five routes, all with
  method GET: \<open>/health\<close>, \<open>/api/ticker/{symbol}\<close>, \<open>/api/news/{symbol}\<close>,
  \<open>/api/search\<close> and \<open>/api/price-history/{symbol}\<close>. Besides them the application
  has the four documentation routes that its constructor registers, \<open>/openapi.json\<close>,
  \<open>/docs\<close>, \<open>/docs/oauth2-redirect\<close> and \<open>/redoc\<close>, with methods GET and HEAD. No
  other route is registered: a request is taken by a route if and only if its method
  and path are among these, where a path without a parameter may be followed by one
  line feed. No route calls \<open>get_top_entities\<close>: no run contains such a call, and
  replacing the imported function changes nothing.
\<close>

theorem five_routes_and_the_documentation:
  "(dispatch ext req \<noteq> None \<longleftrightarrow>
      req_method req = ''GET'' \<and>
      (path_is (req_path req) ''/health'' \<or>
       (\<exists>S. S \<noteq> [] \<and> CHR ''/'' \<notin> set S \<and> req_path req = ''/api/ticker/'' @ S) \<or>
       (\<exists>S. S \<noteq> [] \<and> CHR ''/'' \<notin> set S \<and> req_path req = ''/api/news/'' @ S) \<or>
       path_is (req_path req) ''/api/search'' \<or>
       (\<exists>S. S \<noteq> [] \<and> CHR ''/'' \<notin> set S \<and> req_path req = ''/api/price-history/'' @ S)) \<or>
      (req_method req = ''GET'' \<or> req_method req = ''HEAD'') \<and>
      (path_is (req_path req) ''/openapi.json'' \<or> path_is (req_path req) ''/docs'' \<or>
       path_is (req_path req) ''/docs/oauth2-redirect'' \<or>
       path_is (req_path req) ''/redoc'')) \<and>
   (dispatch ext req = Some (evs, out) \<longrightarrow> Get_top_entities \<notin> set (calls evs)) \<and>
   dispatch (ext\<lparr>get_top_entities := g\<rparr>) req = dispatch ext req"
proof -
  have routed: "dispatch ext req \<noteq> None \<longleftrightarrow>
      req_method req = ''GET'' \<and>
      (path_is (req_path req) ''/health'' \<or>
       (\<exists>S. S \<noteq> [] \<and> CHR ''/'' \<notin> set S \<and> req_path req = ''/api/ticker/'' @ S) \<or>
       (\<exists>S. S \<noteq> [] \<and> CHR ''/'' \<notin> set S \<and> req_path req = ''/api/news/'' @ S) \<or>
       path_is (req_path req) ''/api/search'' \<or>
       (\<exists>S. S \<noteq> [] \<and> CHR ''/'' \<notin> set S \<and> req_path req = ''/api/price-history/'' @ S)) \<or>
      (req_method req = ''GET'' \<or> req_method req = ''HEAD'') \<and>
      (path_is (req_path req) ''/openapi.json'' \<or> path_is (req_path req) ''/docs'' \<or>
       path_is (req_path req) ''/docs/oauth2-redirect'' \<or>
       path_is (req_path req) ''/redoc'')"
    unfolding dispatch_None by (rule find_route_app)
  have no_call: "dispatch ext req = Some (evs, out) \<longrightarrow> Get_top_entities \<notin> set (calls evs)"
  proof
    assume "dispatch ext req = Some (evs, out)"
    then obtain ep ps where
      "call_endpoint ext ep (map_of ps) (query_params req) = (evs, out)"
      by (auto simp: dispatch_def split: option.splits)
    then have "evs = fst (call_endpoint ext ep (map_of ps) (query_params req))"
      by (metis fst_conv)
    then show "Get_top_entities \<notin> set (calls evs)"
      by (simp only: calls_call_endpoint not_False_eq_True)
  qed
  have unused: "dispatch (ext\<lparr>get_top_entities := g\<rparr>) req = dispatch ext req"
    by (simp add: dispatch_def handlers_ignore_get_top_entities split: option.splits)
  show ?thesis
    by (rule conjI [OF routed conjI [OF no_call unused]])
qed

theorem five_routes_and_the_documentation_witness:
  "dispatch sample_ext ticker_aapl \<noteq> None \<and>
   req_method ticker_aapl = ''GET'' \<and>
   req_path ticker_aapl = ''/api/ticker/'' @ ''AAPL'' \<and>
   dispatch sample_ext ticker_aapl =
     Some ([Await (Get_ticker_info ''AAPL'')], Returned aapl_object) \<and>
   Get_top_entities \<notin> set (calls [Await (Get_ticker_info ''AAPL'')])"
  using five_routes_and_the_documentation
    [of sample_ext ticker_aapl "[Await (Get_ticker_info ''AAPL'')]" "Returned aapl_object"]
  by (simp add: sample_ext_def ticker_aapl_def no_query_def dispatch_def app_routes_def
      docs_routes_def decorator_routes_def path_is_def required_str_def get_info_def)

text \<open>
  The claim as it was stated has exactly five routes and no other. \<open>GET /docs\<close> is
  none of the five and is taken by a route of the application, which serves the
  documentation page with status 200 and without calling the provider.
\<close>

theorem docs_route_is_registered:
  "req_method docs_request = ''GET'' \<and>
   req_path docs_request = ''/docs'' \<and>
   dispatch sample_ext docs_request = Some ([], Served_documentation) \<and>
   dispatch sample_ext docs_request \<noteq> None \<and>
   status_code Served_documentation = Some 200"
  by (simp add: docs_request_def no_query_def dispatch_def app_routes_def docs_routes_def
      decorator_routes_def path_is_def)

subsection \<open>C8: host and port\<close>

text \<open>
  C8, as amended. The script block binds the listener to host \<open>0.0.0.0\<close> and port
  \<open>8000\<close>. Both are fixed in the call: whatever the process environment and the command
  line hold, the listener is bound there.
\<close>

theorem listener_address_is_fixed:
  "main_block environ argv = (''0.0.0.0'', 8000)"
  by (simp add: main_block_def)

text \<open>
  The claim as it was stated calls host and port configurable. Supplying another host
  and port, in the environment and on the command line, leaves the listener on
  \<open>0.0.0.0:8000\<close>.
\<close>

theorem supplied_configuration_is_ignored:
  "configured_environ ''HOST'' = Some ''127.0.0.1'' \<and>
   configured_environ ''PORT'' = Some ''9000'' \<and>
   main_block configured_environ configured_argv = (''0.0.0.0'', 8000) \<and>
   main_block configured_environ configured_argv \<noteq> (''127.0.0.1'', 9000)"
  by (simp add: main_block_def configured_environ_def)

subsection \<open>C10: a provider text that is not JSON\<close>

text \<open>
  C10. In \<open>GET /api/ticker/{symbol}\<close>, when the provider call succeeds and its text is
  not valid JSON, the decoding error is caught by the same clause as a provider error:
  the handler logs it and answers with status 500 and the decoding error's text as the
  detail.
\<close>

theorem bad_json_gives_500:
  assumes "get_ticker_info ext symbol = Inr info_json"
    and "json_loads ext info_json = Inl d"
  shows
    "get_info ext symbol =
       ([Await (Get_ticker_info symbol),
         Logger_error (''Error fetching info for '' @ symbol @ '': '' @ d)],
        HTTPException 500 d) \<and>
     status_code (snd (get_info ext symbol)) = Some 500 \<and>
     content (snd (get_info ext symbol)) = Some (JDict [(''detail'', JStr d)])"
proof -
  have "get_info ext symbol =
       ([Await (Get_ticker_info symbol),
         Logger_error (''Error fetching info for '' @ symbol @ '': '' @ d)],
        HTTPException 500 d)"
    using assms by (rule get_info_bad_json)
  then show ?thesis by simp
qed

theorem bad_json_gives_500_witness:
  "get_ticker_info garbled_ext ''AAPL'' = Inr ''<html>Too Many Requests</html>'' \<and>
   json_loads garbled_ext ''<html>Too Many Requests</html>'' =
     Inl ''Expecting value: line 1 column 1 (char 0)'' \<and>
   status_code (snd (get_info garbled_ext ''AAPL'')) = Some 500 \<and>
   content (snd (get_info garbled_ext ''AAPL'')) =
     Some (JDict [(''detail'', JStr ''Expecting value: line 1 column 1 (char 0)'')])"
  using bad_json_gives_500
    [of garbled_ext "''AAPL''" "''<html>Too Many Requests</html>''"
        "''Expecting value: line 1 column 1 (char 0)''"]
  by (simp add: garbled_ext_def sample_ext_def aapl_text_def)

end
